theory Spec2Isabelle
  imports Complex_Main
begin

section \<open>The data model of \<open>data_model.py\<close>\<close>

text \<open>
  The module declares the schemas of a real-estate valuation input: a location with its
  planar (UTM) coordinates and an order-\<open>p\<close> distance, the enums of city and transaction,
  the model key built from them, an abbreviated input schema and the unit schema with its
  interval-valued attributes.

  Conventions of the embedding.
  \<^item> A finite Python \<open>float\<close> is the \<open>real\<close> it denotes. The distance is read twice.
    \<open>utm_distance_fl\<close> is the body over the machine arithmetic of doubles, which is a
    parameter (\<open>arith\<close>): its subtraction, absolute value, power and addition round and
    overflow as the machine's do, and nothing is assumed of them but what a theorem
    states. \<open>utm_distance\<close> is the same body in exact arithmetic, for the properties that
    do not depend on rounding; the one non-finite value exact arithmetic produces from
    finite inputs, the infinity of \<open>np.power(0.0, p)\<close> with \<open>p < 0\<close>, is kept as a value
    of its own.
  \<^item> A Python \<open>int\<close> is an \<open>int\<close>; an exponent is in the range \<open>np.power\<close> accepts.
  \<^item> A raise is the left summand of \<open>error + 'a\<close>.
  \<^item> Python resolves a name when the expression is evaluated, first among the locals of
    the running function and then among the names bound at module level. The function
    bodies that read a name which is not a parameter keep this lookup explicit
    (\<open>load_name\<close>), and attribute reads on objects are explicit where the attribute is
    not a declared field (\<open>getattr_float\<close>, \<open>AVM_field\<close>).
  \<^item> Each function is modelled from its body, as it runs once the module and its classes
    are defined: the imports, the decorator of \<open>_to_planar_transform\<close> and the evaluation
    of annotations are outside the model.
  \<^item> The schemas are classes of the schema library (\<open>pydantic\<close>, \<open>BaseModel\<close>): an
    attribute assignment on a schema object goes through the library's \<open>__setattr__\<close>,
    which refuses a name that the class does not declare as a field.
  \<^item> The projection library (\<open>pyproj\<close>) and the float validation of the schema library
    are parameters of the functions that call them.
\<close>

subsection \<open>Errors and floating values\<close>

datatype error =
    NameError string
      \<comment> \<open>a name that is bound neither locally nor at module level\<close>
  | AttributeError string
      \<comment> \<open>an attribute the object does not have\<close>
  | TypeError string
      \<comment> \<open>a call with the wrong number of arguments, or a value of the wrong type\<close>
  | ValueError string
      \<comment> \<open>a value the operation refuses; from \<open>__setattr__\<close>, with the attribute's name\<close>
  | OverflowError
      \<comment> \<open>a number beyond the range of a double, as \<open>float(10**400)\<close> raises\<close>
  | ValidationError string
      \<comment> \<open>the schema library's rejection of a field, with the field's name\<close>
  | ProjectionError
      \<comment> \<open>a failure reported by the external projection library\<close>

definition then_do :: "error + 'a \<Rightarrow> ('a \<Rightarrow> error + 'b) \<Rightarrow> error + 'b" where
  "then_do m f = (case m of Inl e \<Rightarrow> Inl e | Inr v \<Rightarrow> f v)"

datatype npfloat = Fin real | PInf

definition np_abs :: "real \<Rightarrow> real" where
  "np_abs x = \<bar>x\<bar>"

definition np_power :: "real \<Rightarrow> int \<Rightarrow> npfloat" where
  \<comment> \<open>\<open>np.power\<close> of a float and a Python int: a negative exponent is the reciprocal of
      the positive power, and a zero base with a negative exponent gives infinity (with a
      warning, not an exception).\<close>
  "np_power x p =
     (if 0 \<le> p then Fin (x ^ nat p)
      else if x = 0 then PInf
      else Fin (1 / x ^ nat (- p)))"

fun np_add :: "npfloat \<Rightarrow> npfloat \<Rightarrow> npfloat" where
  "np_add (Fin a) (Fin b) = Fin (a + b)"
| "np_add _ _ = PInf"

text \<open>
  The values of a double, and the four operations the body of \<open>utm_distance\<close> applies to
  doubles. The operations are the machine's: a record of them is a parameter of the
  floating reading of the body.
\<close>

datatype double = Finite real | PlusInf | MinusInf | NotANumber

record arith =
  fl_sub :: "double \<Rightarrow> double \<Rightarrow> double"
  fl_abs :: "double \<Rightarrow> double"
  fl_power :: "double \<Rightarrow> int \<Rightarrow> double"
  fl_add :: "double \<Rightarrow> double \<Rightarrow> double"

text \<open>
  Arithmetic without rounding, on all the values of a double: the arithmetic of the exact
  reading, and an instance of the parameter.
\<close>

fun exact_sub :: "double \<Rightarrow> double \<Rightarrow> double" where
  "exact_sub (Finite a) (Finite b) = Finite (a - b)"
| "exact_sub NotANumber _ = NotANumber"
| "exact_sub _ NotANumber = NotANumber"
| "exact_sub PlusInf PlusInf = NotANumber"
| "exact_sub MinusInf MinusInf = NotANumber"
| "exact_sub PlusInf _ = PlusInf"
| "exact_sub MinusInf _ = MinusInf"
| "exact_sub (Finite a) PlusInf = MinusInf"
| "exact_sub (Finite a) MinusInf = PlusInf"

fun exact_abs :: "double \<Rightarrow> double" where
  "exact_abs (Finite a) = Finite \<bar>a\<bar>"
| "exact_abs PlusInf = PlusInf"
| "exact_abs MinusInf = PlusInf"
| "exact_abs NotANumber = NotANumber"

fun exact_power :: "double \<Rightarrow> int \<Rightarrow> double" where
  "exact_power (Finite x) p =
     (if 0 \<le> p then Finite (x ^ nat p)
      else if x = 0 then PlusInf
      else Finite (1 / x ^ nat (- p)))"
| "exact_power PlusInf p = (if p = 0 then Finite 1 else if 0 < p then PlusInf else Finite 0)"
| "exact_power MinusInf p =
     (if p = 0 then Finite 1
      else if p < 0 then Finite 0
      else if even p then PlusInf else MinusInf)"
| "exact_power NotANumber p = (if p = 0 then Finite 1 else NotANumber)"

fun exact_add :: "double \<Rightarrow> double \<Rightarrow> double" where
  "exact_add (Finite a) (Finite b) = Finite (a + b)"
| "exact_add NotANumber _ = NotANumber"
| "exact_add _ NotANumber = NotANumber"
| "exact_add PlusInf MinusInf = NotANumber"
| "exact_add MinusInf PlusInf = NotANumber"
| "exact_add PlusInf _ = PlusInf"
| "exact_add _ PlusInf = PlusInf"
| "exact_add MinusInf _ = MinusInf"
| "exact_add _ MinusInf = MinusInf"

definition exact_arith :: arith where
  "exact_arith =
     \<lparr>fl_sub = exact_sub, fl_abs = exact_abs, fl_power = exact_power, fl_add = exact_add\<rparr>"

fun double_of :: "npfloat \<Rightarrow> double" where
  "double_of (Fin x) = Finite x"
| "double_of PInf = PlusInf"

subsection \<open>Enums and the model key\<close>

datatype TransactionSet = rental | sale

fun TransactionSet_value :: "TransactionSet \<Rightarrow> string" where
  "TransactionSet_value rental = ''aluguel''"
| "TransactionSet_value sale = ''venda''"

datatype CitySet = sp_capital | rj_capital

fun CitySet_value :: "CitySet \<Rightarrow> string" where
  "CitySet_value sp_capital = ''sp''"
| "CitySet_value rj_capital = ''rj''"

record ModelSpec =
  city :: CitySet
  transaction :: TransactionSet

definition ModelSpec_spec :: "ModelSpec \<Rightarrow> string \<times> string" where
  "ModelSpec_spec self =
     (CitySet_value (ModelSpec.city self), TransactionSet_value (transaction self))"

definition ModelSpec_str :: "ModelSpec \<Rightarrow> string" where
  \<comment> \<open>\<open>__str__\<close>: the f-string \<open>{self.city.value}_{self.transaction.value}\<close>\<close>
  "ModelSpec_str self =
     CitySet_value (ModelSpec.city self) @ ''_'' @ TransactionSet_value (transaction self)"

subsection \<open>Locations\<close>

text \<open>
  The argument of the constructor is annotated as a pair of floats; the body reads its
  attribute \<open>coordinates\<close>. Both shapes of argument are values of \<open>location_arg\<close>: the raw
  pair \<open>(lat, lon)\<close>, and an object whose attribute \<open>coordinates\<close> is that pair.
\<close>

datatype location_arg = RawTuple real real | HasCoordinates real real

record LocationSpec =
  location :: location_arg
  lat :: real
  lon :: real
  utm_north :: real
  utm_east :: real

record AVM_AbbrevSpecm =
  city :: CitySet
  transacao :: TransactionSet
  condominio :: real
  quartos :: int
  banheiros :: int
  vagas :: int
  area :: real
  suites :: int
  lat :: real
  lon :: real

datatype pyobj =
    Float real
  | PyInt int
  | Instance LocationSpec
  | ProjObj string
  | CityObj CitySet
  | TransactionObj TransactionSet
  | ModuleLevel string

definition module_names :: "string list" where
  \<comment> \<open>the names the module binds at its top level, in the order of the source\<close>
  "module_names =
     [''BaseModel'', ''PositiveFloat'', ''List'', ''Any'', ''Tuple'', ''Enum'', ''np'',
      ''pyproj'', ''JIT'', ''BRL'', ''unit_id'', ''Interval'', ''_to_planar_transform'',
      ''LocationSpec'', ''TransactionSet'', ''CitySet'', ''ModelSpec'',
      ''AVM_AbbrevSpecm'', ''AddressSpec'', ''UnitSpec'']"

definition load_name :: "(string \<times> pyobj) list \<Rightarrow> string \<Rightarrow> error + pyobj" where
  \<comment> \<open>the value of a name in a function body: a local of the frame, else a module-level
      name, else \<open>NameError\<close> (the builtins hold none of the names the bodies read)\<close>
  "load_name frame x =
     (case map_of frame x of
        Some v \<Rightarrow> Inr v
      | None \<Rightarrow> if x \<in> set module_names then Inr (ModuleLevel x) else Inl (NameError x))"

definition getattr_float :: "pyobj \<Rightarrow> string \<Rightarrow> error + real" where
  \<comment> \<open>reading one of the float attributes of a location; no other object of the model has
      an attribute of these names\<close>
  "getattr_float obj a =
     (case obj of
        Instance r \<Rightarrow>
          (if a = ''lat'' then Inr (LocationSpec.lat r)
           else if a = ''lon'' then Inr (LocationSpec.lon r)
           else if a = ''utm_north'' then Inr (utm_north r)
           else if a = ''utm_east'' then Inr (utm_east r)
           else Inl (AttributeError a))
      | _ \<Rightarrow> Inl (AttributeError a))"

definition to_planar_transform ::
  "(string \<Rightarrow> string \<Rightarrow> real \<Rightarrow> real \<Rightarrow> error + real \<times> real) \<Rightarrow> real \<Rightarrow> real
     \<Rightarrow> error + real \<times> real" where
  \<comment> \<open>\<open>_to_planar_transform(lat, lon)\<close>. The parameter \<open>pyproj_transform\<close> is the library's
      \<open>pyproj.transform\<close>, given the two projection definitions and the two coordinates.
      The arguments of the call are \<open>wgs84\<close>, \<open>utm23\<close>, \<open>self.lat\<close>, \<open>self.lon\<close>.\<close>
  "to_planar_transform pyproj_transform lat' lon' =
     (let wgs84 = ''+init=EPSG:4326'';
          utm23 = ''+init=EPSG:32723'';
          frame = [(''lat'', Float lat'), (''lon'', Float lon'),
                   (''wgs84'', ProjObj wgs84), (''utm23'', ProjObj utm23)]
      in then_do (load_name frame ''self'') (\<lambda>s1.
         then_do (getattr_float s1 ''lat'') (\<lambda>a.
         then_do (load_name frame ''self'') (\<lambda>s2.
         then_do (getattr_float s2 ''lon'') (\<lambda>b.
         pyproj_transform wgs84 utm23 a b)))))"

definition coordinates :: "location_arg \<Rightarrow> error + real \<times> real" where
  \<comment> \<open>the attribute \<open>coordinates\<close> of the constructor's argument: a tuple has none\<close>
  "coordinates loc =
     (case loc of
        RawTuple a b \<Rightarrow> Inl (AttributeError ''coordinates'')
      | HasCoordinates a b \<Rightarrow> Inr (a, b))"

definition LocationSpec_declared_fields :: "string list" where
  \<comment> \<open>the fields the body of the class \<open>LocationSpec\<close> declares: it has methods only\<close>
  "LocationSpec_declared_fields = []"

definition BaseModel_setattr :: "string list \<Rightarrow> string \<Rightarrow> error + unit" where
  \<comment> \<open>\<open>BaseModel.__setattr__\<close>, which runs on every \<open>self.name = value\<close> of a schema
      object: a name that is not a declared field of the class is refused with
      \<open>ValueError\<close>\<close>
  "BaseModel_setattr declared name =
     (if name \<in> set declared then Inr () else Inl (ValueError name))"

definition LocationSpec_init ::
  "(string \<Rightarrow> string \<Rightarrow> real \<Rightarrow> real \<Rightarrow> error + real \<times> real) \<Rightarrow> location_arg
     \<Rightarrow> error + LocationSpec" where
  \<comment> \<open>\<open>LocationSpec.__init__(self, location)\<close>: the four assignments in the order of the
      body, each right-hand side evaluated before its \<open>__setattr__\<close>; the result is the
      initialised object\<close>
  "LocationSpec_init pyproj_transform loc =
     then_do (BaseModel_setattr LocationSpec_declared_fields ''location'') (\<lambda>_.
     then_do (coordinates loc) (\<lambda>c0.
     then_do (BaseModel_setattr LocationSpec_declared_fields ''lat'') (\<lambda>_.
     then_do (coordinates loc) (\<lambda>c1.
     then_do (BaseModel_setattr LocationSpec_declared_fields ''lon'') (\<lambda>_.
     then_do (to_planar_transform pyproj_transform (fst c0) (snd c1)) (\<lambda>ne.
     then_do (BaseModel_setattr LocationSpec_declared_fields ''utm_north'') (\<lambda>_.
     then_do (BaseModel_setattr LocationSpec_declared_fields ''utm_east'') (\<lambda>_.
     Inr \<lparr>location = loc, lat = fst c0, lon = snd c1,
          utm_north = fst ne, utm_east = snd ne\<rparr>))))))))"

definition utm_distance_fl ::
  "arith \<Rightarrow> LocationSpec \<Rightarrow> real \<Rightarrow> real \<Rightarrow> int \<Rightarrow> error + double" where
  \<comment> \<open>\<open>utm_distance(self, utm_north, utm_east, p)\<close> over the machine arithmetic \<open>ar\<close>:
      \<open>dy\<close>, then \<open>dx\<close>, then \<open>dx + dy\<close>; the body has no raise\<close>
  "utm_distance_fl ar self utm_north' utm_east' p =
     (let dy = fl_power ar (fl_abs ar (fl_sub ar (Finite utm_north') (Finite (utm_north self)))) p;
          dx = fl_power ar (fl_abs ar (fl_sub ar (Finite utm_east') (Finite (utm_east self)))) p
      in Inr (fl_add ar dx dy))"

definition utm_distance :: "LocationSpec \<Rightarrow> real \<Rightarrow> real \<Rightarrow> int \<Rightarrow> error + npfloat" where
  \<comment> \<open>\<open>utm_distance(self, utm_north, utm_east, p)\<close> in exact arithmetic; the body has no
      raise\<close>
  "utm_distance self utm_north' utm_east' p =
     (let dy = np_power (np_abs (utm_north' - utm_north self)) p;
          dx = np_power (np_abs (utm_east' - utm_east self)) p
      in Inr (np_add dx dy))"

definition lat_lon_distance ::
  "(string \<Rightarrow> string \<Rightarrow> real \<Rightarrow> real \<Rightarrow> error + real \<times> real) \<Rightarrow> LocationSpec
     \<Rightarrow> real \<Rightarrow> real \<Rightarrow> int \<Rightarrow> error + npfloat" where
  "lat_lon_distance pyproj_transform self lat' lon' p =
     then_do (to_planar_transform pyproj_transform lat' lon') (\<lambda>new.
     utm_distance self (fst new) (snd new) p)"

definition loc_distance :: "LocationSpec \<Rightarrow> LocationSpec \<Rightarrow> int \<Rightarrow> error + npfloat" where
  \<comment> \<open>\<open>loc_distance(self, other, p)\<close>: the body is the call
      \<open>self.utm_distance(self, other.utm_north, utm_east, p)\<close>. Its arguments are
      evaluated from left to right, and then the bound method, which takes at most three
      arguments besides \<open>self\<close>, is called with four.\<close>
  "loc_distance self other p =
     (let frame = [(''self'', Instance self), (''other'', Instance other), (''p'', PyInt p)]
      in then_do (load_name frame ''self'') (\<lambda>a1.
         then_do (load_name frame ''other'') (\<lambda>oth.
         then_do (getattr_float oth ''utm_north'') (\<lambda>a2.
         then_do (load_name frame ''utm_east'') (\<lambda>a3.
         then_do (load_name frame ''p'') (\<lambda>a4.
         Inl (TypeError ''utm_distance() takes from 3 to 4 positional arguments but 5 were given'')))))))"

subsection \<open>The abbreviated input schema\<close>

definition AVM_field :: "AVM_AbbrevSpecm \<Rightarrow> string \<Rightarrow> error + pyobj" where
  \<comment> \<open>reading a declared field of the schema by its name; any other data attribute is an
      \<open>AttributeError\<close>\<close>
  "AVM_field self a =
     (if a = ''city'' then Inr (CityObj (AVM_AbbrevSpecm.city self))
      else if a = ''transacao'' then Inr (TransactionObj (transacao self))
      else if a = ''condominio'' then Inr (Float (condominio self))
      else if a = ''quartos'' then Inr (PyInt (quartos self))
      else if a = ''banheiros'' then Inr (PyInt (banheiros self))
      else if a = ''vagas'' then Inr (PyInt (vagas self))
      else if a = ''area'' then Inr (Float (area self))
      else if a = ''suites'' then Inr (PyInt (suites self))
      else if a = ''lat'' then Inr (Float (AVM_AbbrevSpecm.lat self))
      else if a = ''lon'' then Inr (Float (AVM_AbbrevSpecm.lon self))
      else Inl (AttributeError a))"

definition AVM_location :: "AVM_AbbrevSpecm \<Rightarrow> error + pyobj \<times> pyobj" where
  \<comment> \<open>the property \<open>location\<close>: the tuple \<open>(self.lat, self.on)\<close>\<close>
  "AVM_location self =
     then_do (AVM_field self ''lat'') (\<lambda>a.
     then_do (AVM_field self ''on'') (\<lambda>b.
     Inr (a, b)))"

subsection \<open>Interval-valued attributes of a unit\<close>



datatype raw = RNum real | RStr string | RNull | RSeq "raw list"

datatype 'a checked = Valid 'a | Invalid | Raised error

definition caught :: "error \<Rightarrow> bool" where
  \<comment> \<open>the exceptions of a validator that the library turns into a validation error\<close>
  "caught e =
     (case e of ValueError _ \<Rightarrow> True | TypeError _ \<Rightarrow> True | ValidationError _ \<Rightarrow> True
      | _ \<Rightarrow> False)"

definition validate_float :: "(raw \<Rightarrow> error + real) \<Rightarrow> raw \<Rightarrow> real checked" where
  "validate_float float_validator v =
     (if v = RNull then Invalid
      else case float_validator v of
             Inl e \<Rightarrow> if caught e then Invalid else Raised e
           | Inr x \<Rightarrow> Valid x)"

definition validate_Interval :: "(raw \<Rightarrow> error + real) \<Rightarrow> raw \<Rightarrow> (real \<times> real) checked" where
  "validate_Interval float_validator v =
     (case v of
        RSeq [a, b] \<Rightarrow>
          (case validate_float float_validator a of
             Raised e \<Rightarrow> Raised e
           | Invalid \<Rightarrow>
               (case validate_float float_validator b of
                  Raised e \<Rightarrow> Raised e
                | _ \<Rightarrow> Invalid)
           | Valid lo \<Rightarrow>
               (case validate_float float_validator b of
                  Raised e \<Rightarrow> Raised e
                | Invalid \<Rightarrow> Invalid
                | Valid hi \<Rightarrow> Valid (lo, hi)))
      | _ \<Rightarrow> Invalid)"

definition validate_interval_field ::
  "(raw \<Rightarrow> error + real) \<Rightarrow> (string \<times> raw) list \<Rightarrow> string \<Rightarrow> error + real \<times> real" where
  \<comment> \<open>one interval field of a raw unit: a required field, validated as an \<open>Interval\<close>\<close>
  "validate_interval_field float_validator unit field =
     (case map_of unit field of
        None \<Rightarrow> Inl (ValidationError field)
      | Some v \<Rightarrow>
          (case validate_Interval float_validator v of
             Valid iv \<Rightarrow> Inr iv
           | Invalid \<Rightarrow> Inl (ValidationError field)
           | Raised e \<Rightarrow> Inl e))"


definition rejecting_transform :: "string \<Rightarrow> string \<Rightarrow> real \<Rightarrow> real \<Rightarrow> error + real \<times> real" where
  \<comment> \<open>a projection that reports \<open>ProjectionError\<close> outside the geodetic domain, and is the
      identity inside it\<close>
  "rejecting_transform src dst x y =
     (if \<bar>x\<bar> \<le> 90 \<and> \<bar>y\<bar> \<le> 180 then Inr (x, y) else Inl ProjectionError)"

section \<open>Properties\<close>

subsection \<open>Helper facts\<close>

lemma to_planar_transform_unbound_self:
  "to_planar_transform pyproj_transform lat' lon' = Inl (NameError ''self'')"
  by (simp add: to_planar_transform_def load_name_def module_names_def then_do_def)



lemma exact_arith_simps [simp]:
  "fl_sub exact_arith = exact_sub" "fl_abs exact_arith = exact_abs"
  "fl_power exact_arith = exact_power" "fl_add exact_arith = exact_add"
  by (simp_all add: exact_arith_def)

text \<open>The exact reading of the distance is its floating reading at exact arithmetic.\<close>

lemma utm_distance_exact_reading:
  "utm_distance_fl exact_arith a n e p = map_sum id double_of (utm_distance a n e p)"
  by (simp add: utm_distance_fl_def utm_distance_def np_power_def np_abs_def Let_def)




text \<open>
  An exception of the float validation that the library does not catch leaves the
  validation of the field as it is: \<open>OverflowError\<close> on the first bound is the result.
\<close>

lemma validate_interval_field_escapes:
  "a \<noteq> RNull \<Longrightarrow> fv a = Inl OverflowError \<Longrightarrow>
   validate_interval_field fv [(f, RSeq [a, b])] f = Inl OverflowError"
  by (simp add: validate_interval_field_def validate_Interval_def validate_float_def caught_def)

subsection \<open>The distance\<close>



text \<open>
  C6. For all planar points \<open>a\<close> and \<open>b\<close> and every positive order \<open>p\<close>, the distance
  from \<open>a\<close> to \<open>b\<close> equals the distance from \<open>b\<close> to \<open>a\<close>.
\<close>

theorem utm_distance_symmetric:
  "0 < p \<Longrightarrow>
   utm_distance a (utm_north b) (utm_east b) p = utm_distance b (utm_north a) (utm_east a) p"
  by (simp add: utm_distance_def np_abs_def Let_def abs_minus_commute)

theorem utm_distance_symmetric_witness:
  "(0::int) < 3 \<and>
   utm_distance \<lparr>location = HasCoordinates 0 0, lat = 0, lon = 0, utm_north = 0, utm_east = 0\<rparr> 3 4 3
   = utm_distance \<lparr>location = HasCoordinates 1 1, lat = 1, lon = 1, utm_north = 3, utm_east = 4\<rparr> 0 0 3"
  using utm_distance_symmetric
    [of 3 "\<lparr>location = HasCoordinates 0 0, lat = 0, lon = 0, utm_north = 0, utm_east = 0\<rparr>"
          "\<lparr>location = HasCoordinates 1 1, lat = 1, lon = 1, utm_north = 3, utm_east = 4\<rparr>"]
  by simp

text \<open>
  C4, as amended. The distance operation makes no check of the order: for every pair of
  planar points and every integer \<open>p\<close>, positive or not, it returns a value and has no
  failure mode; for \<open>p = 0\<close> the value is 2.
\<close>

theorem utm_distance_no_failure:
  "(\<exists>v. utm_distance a north_b east_b p = Inr v)
   \<and> utm_distance a north_b east_b 0 = Inr (Fin 2)"
  by (simp add: utm_distance_def np_power_def np_abs_def Let_def)

text \<open>
  C4 as stated asks for a failure exactly when \<open>p \<le> 0\<close>. With \<open>a = (0, 0)\<close>,
  \<open>b = (3, 4)\<close> and \<open>p = 0\<close> the operation returns 2.
\<close>

theorem utm_distance_order_zero_counterexample:
  "utm_distance \<lparr>location = HasCoordinates 0 0, lat = 0, lon = 0, utm_north = 0, utm_east = 0\<rparr>
     3 4 0 = Inr (Fin 2)"
  by (simp add: utm_distance_def np_power_def np_abs_def Let_def)

text \<open>
  C2. The record-to-record distance is stated to equal
  \<open>self.utm_distance(other.utm_north, other.utm_east, p)\<close>. The body of \<open>loc_distance\<close>
  reads the name \<open>utm_east\<close>, which is neither a parameter nor a module-level name: for
  all records and every order the call raises \<open>NameError\<close>, and so differs from the
  distance of the cached coordinates.
\<close>

theorem loc_distance_raises:
  "loc_distance a b p = Inl (NameError ''utm_east'')
   \<and> loc_distance a b p \<noteq> utm_distance a (utm_north b) (utm_east b) p"
  by (simp add: loc_distance_def load_name_def module_names_def then_do_def getattr_float_def
      utm_distance_def Let_def)

subsection \<open>The coordinate transform and the constructor\<close>

text \<open>
  C10. The helper is stated to compute its result from its parameters \<open>lat\<close> and \<open>lon\<close>
  without reading an undefined name. Its body reads \<open>self.lat\<close> and \<open>self.lon\<close>, and
  \<open>self\<close> is unbound: for every input and every projection library the helper raises
  \<open>NameError\<close>, and \<open>lat_lon_distance\<close>, which calls it, raises with it.
\<close>

theorem to_planar_transform_raises:
  "to_planar_transform pyproj_transform la lo = Inl (NameError ''self'')
   \<and> lat_lon_distance pyproj_transform a la lo p = Inl (NameError ''self'')"
  by (simp add: lat_lon_distance_def then_do_def to_planar_transform_unbound_self)

text \<open>
  C3. Construction from a raw pair \<open>(lat, lon)\<close> is stated to succeed and to set the
  fields \<open>lat\<close>, \<open>lon\<close> and the planar coordinates. The class declares none of these as
  a field, so the first assignment of the constructor, \<open>self.location = location\<close>, is
  refused by \<open>__setattr__\<close>: construction raises \<open>ValueError\<close> for every argument, a raw
  pair or an object with the attribute \<open>coordinates\<close>, and sets no field.
\<close>

theorem LocationSpec_init_raises:
  "LocationSpec_init pyproj_transform loc = Inl (ValueError ''location'')"
  by (simp add: LocationSpec_init_def BaseModel_setattr_def LocationSpec_declared_fields_def
      then_do_def)

text \<open>
  C8. The transform is stated to fail with \<open>ProjectionError\<close> for an input outside the
  domain of the projection, as \<open>transform(lat=91, lon=0)\<close>. The body never reaches the
  projection library: even with a library that reports \<open>ProjectionError\<close> for this
  input, the call raises the \<open>NameError\<close> of the unbound \<open>self\<close>.
\<close>

theorem to_planar_transform_out_of_domain:
  "rejecting_transform ''+init=EPSG:4326'' ''+init=EPSG:32723'' 91 0 = Inl ProjectionError
   \<and> to_planar_transform rejecting_transform 91 0 = Inl (NameError ''self'')
   \<and> to_planar_transform rejecting_transform 91 0 \<noteq> Inl ProjectionError"
  by (simp add: to_planar_transform_unbound_self rejecting_transform_def)

subsection \<open>The model key\<close>

text \<open>
  C7. For every pair of city and transaction the model key is the city's value, an
  underscore and the transaction's value, where the values are \<open>sp\<close>, \<open>rj\<close> and
  \<open>aluguel\<close>, \<open>venda\<close>: the four keys are \<open>sp_aluguel\<close>, \<open>sp_venda\<close>,
  \<open>rj_aluguel\<close> and \<open>rj_venda\<close>, and for the city \<open>sp\<close> and a sale the key is
  \<open>sp_venda\<close>.
\<close>

theorem ModelSpec_str_key:
  "CitySet_value sp_capital = ''sp'' \<and> CitySet_value rj_capital = ''rj''
   \<and> TransactionSet_value rental = ''aluguel'' \<and> TransactionSet_value sale = ''venda''
   \<and> ModelSpec_str m
       = CitySet_value (ModelSpec.city m) @ ''_'' @ TransactionSet_value (transaction m)
   \<and> ModelSpec_str \<lparr>ModelSpec.city = sp_capital, transaction = rental\<rparr> = ''sp_aluguel''
   \<and> ModelSpec_str \<lparr>ModelSpec.city = sp_capital, transaction = sale\<rparr> = ''sp_venda''
   \<and> ModelSpec_str \<lparr>ModelSpec.city = rj_capital, transaction = rental\<rparr> = ''rj_aluguel''
   \<and> ModelSpec_str \<lparr>ModelSpec.city = rj_capital, transaction = sale\<rparr> = ''rj_venda''"
  by (simp add: ModelSpec_str_def)

subsection \<open>The abbreviated schema\<close>

text \<open>
  C9. The property \<open>location\<close> of the abbreviated schema is stated to return the pair of
  the declared fields \<open>lat\<close> and \<open>lon\<close>. Its body reads the attribute \<open>on\<close>, which
  the schema does not declare: for every instance the property raises \<open>AttributeError\<close>.
\<close>

theorem AVM_location_raises:
  "AVM_location x = Inl (AttributeError ''on'')
   \<and> AVM_location x \<noteq> Inr (Float (AVM_AbbrevSpecm.lat x), Float (AVM_AbbrevSpecm.lon x))"
  by (simp add: AVM_location_def AVM_field_def then_do_def)

subsection \<open>Interval fields\<close>




end
